theory Spec2Isabelle
  imports
    Main
    "HOL-Library.Sublist"
    "HOL-Library.Char_ord"
    "HOL-Library.List_Lexorder"
    "HOL-Library.Multiset"
begin

section \<open>The file unit of plainbox: \<open>plainbox/impl/unit/file.py\<close>\<close>

text \<open>
  The module declares the symbols \<open>FileRole\<close>, the validator class
  \<open>FileUnitValidator\<close> with its own \<open>explain\<close>, and the unit class \<open>FileUnit\<close>
  with two field validators. Python strings are modelled as \<^typ>\<open>string\<close>, a list of
  8-bit characters read as the code points 0 to 255; a value that is a string or
  \<open>None\<close> is a \<^typ>\<open>string option\<close>.
\<close>

subsection \<open>Python built-ins and library functions the module calls\<close>

datatype py_error = TypeError | AttributeError | IndexError | ValueError | KeyError

text \<open>Truth value of a string or \<open>None\<close>: \<open>None\<close> and the empty string are false.\<close>

fun py_bool :: "string option \<Rightarrow> bool" where
  "py_bool None = False"
| "py_bool (Some s) = (s \<noteq> [])"

text \<open>\<open>a or b\<close> on such values: \<open>a\<close> when it is true, otherwise \<open>b\<close>.\<close>

definition py_or :: "string option \<Rightarrow> string option \<Rightarrow> string option" where
  "py_or a b = (if py_bool a then a else b)"

text \<open>
  \<open>str.rfind\<close> of a single character: the highest index where it occurs, or \<open>-1\<close>.
  The scan goes left to right and remembers the last hit.
\<close>

fun rfind_from :: "string \<Rightarrow> char \<Rightarrow> int \<Rightarrow> int \<Rightarrow> int" where
  "rfind_from [] c i found = found"
| "rfind_from (x # xs) c i found = rfind_from xs c (i + 1) (if x = c then i else found)"

definition rfind :: "string \<Rightarrow> char \<Rightarrow> int" where
  "rfind p c = rfind_from p c 0 (- 1)"

text \<open>
  \<open>os.path.splitext\<close> on a POSIX system (\<open>genericpath._splitext\<close> with separator
  \<open>/\<close>, no alternative separator and extension separator \<open>.\<close>). The loop skips the
  leading dots of the file name; it returns the split at the last dot as soon as it
  meets another character, and gives up (\<open>None\<close>) when it reaches the last dot.
\<close>

function splitext_loop :: "string \<Rightarrow> nat \<Rightarrow> nat \<Rightarrow> (string \<times> string) option" where
  "splitext_loop p filenameIndex dotIndex =
     (if filenameIndex < dotIndex then
        (if p ! filenameIndex \<noteq> CHR ''.'' then Some (take dotIndex p, drop dotIndex p)
         else splitext_loop p (Suc filenameIndex) dotIndex)
      else None)"
  by pat_completeness auto
termination
  by (relation "measure (\<lambda>(p, filenameIndex, dotIndex). dotIndex - filenameIndex)") auto

declare splitext_loop.simps [simp del]

definition splitext :: "string \<Rightarrow> string \<times> string" where
  "splitext p =
     (let sepIndex = rfind p CHR ''/'';
          dotIndex = rfind p CHR ''.''
      in if dotIndex > sepIndex then
           (case splitext_loop p (nat (sepIndex + 1)) (nat dotIndex) of
              Some r \<Rightarrow> r
            | None \<Rightarrow> (p, []))
         else (p, []))"

text \<open>\<open>sep.join(xs)\<close>.\<close>

fun py_join :: "string \<Rightarrow> string list \<Rightarrow> string" where
  "py_join sep [] = []"
| "py_join sep [x] = x"
| "py_join sep (x # y # ys) = x @ sep @ py_join sep (y # ys)"

text \<open>
  \<open>repr\<close> of a string. The quote is \<open>'\<close> unless the string has a \<open>'\<close> and no \<open>"\<close>.
  The quote and the backslash are escaped with a backslash, tab, newline and carriage
  return by their letters, every other non-printable character by \<open>\xHH\<close> in lower-case
  hexadecimal. Below 256 the printable characters are 0x20 to 0x7e and 0xa1 to 0xff
  without the soft hyphen 0xad.
\<close>

definition hex_digit :: "nat \<Rightarrow> char" where
  "hex_digit n = ''0123456789abcdef'' ! (n mod 16)"

definition py_isprintable :: "char \<Rightarrow> bool" where
  "py_isprintable c =
     (let n = (of_char c :: nat)
      in (32 \<le> n \<and> n < 127) \<or> (161 \<le> n \<and> n \<noteq> 173))"

definition repr_char :: "char \<Rightarrow> char \<Rightarrow> string" where
  "repr_char quote c =
     (if c = quote \<or> c = CHR 0x5C then [CHR 0x5C, c]
      else if c = CHR 0x09 then [CHR 0x5C, CHR ''t'']
      else if c = CHR 0x0A then [CHR 0x5C, CHR ''n'']
      else if c = CHR 0x0D then [CHR 0x5C, CHR ''r'']
      else if py_isprintable c then [c]
      else [CHR 0x5C, CHR ''x'', hex_digit (of_char c div 16), hex_digit (of_char c)])"

definition repr_quote :: "string \<Rightarrow> char" where
  "repr_quote s =
     (if CHR 0x27 \<in> set s \<and> CHR 0x22 \<notin> set s then CHR 0x22 else CHR 0x27)"

definition str_repr :: "string \<Rightarrow> string" where
  "str_repr s = (let q = repr_quote s in [q] @ concat (map (repr_char q) s) @ [q])"

text \<open>\<open>repr\<close> and \<open>str\<close> of a string or \<open>None\<close>.\<close>

fun py_repr :: "string option \<Rightarrow> string" where
  "py_repr None = ''None''"
| "py_repr (Some s) = str_repr s"

fun py_str :: "string option \<Rightarrow> string" where
  "py_str None = ''None''"
| "py_str (Some s) = s"

text \<open>
  \<open>template.format(*args)\<close> for the replacement fields the module uses: \<open>{}\<close> takes
  the next argument through \<open>str\<close>, \<open>{!r}\<close> through \<open>repr\<close>; \<open>{{\<close> and \<open>}}\<close> are the
  escaped braces. A field with no argument left raises \<open>IndexError\<close>, any other use of
  a brace \<open>ValueError\<close>.
\<close>

definition sum_cons :: "string \<Rightarrow> py_error + string \<Rightarrow> py_error + string" where
  "sum_cons s r = (case r of Inl e \<Rightarrow> Inl e | Inr t \<Rightarrow> Inr (s @ t))"

fun py_format :: "string \<Rightarrow> string option list \<Rightarrow> py_error + string" where
  "py_format [] args = Inr []"
| "py_format (c # cs) args =
     (if c = CHR ''{'' then
        (if prefix ''}'' cs then
           (case args of
              [] \<Rightarrow> Inl IndexError
            | a # rest \<Rightarrow> sum_cons (py_str a) (py_format (drop 1 cs) rest))
         else if prefix ''!r}'' cs then
           (case args of
              [] \<Rightarrow> Inl IndexError
            | a # rest \<Rightarrow> sum_cons (py_repr a) (py_format (drop 3 cs) rest))
         else if prefix ''{'' cs then sum_cons ''{'' (py_format (drop 1 cs) args)
         else Inl ValueError)
      else if c = CHR ''}'' then
        (if prefix ''}'' cs then sum_cons ''}'' (py_format (drop 1 cs) args)
         else Inl ValueError)
      else sum_cons [c] (py_format cs args))"

subsection \<open>Symbols: \<open>FileRole\<close> and \<open>Meta.fields\<close>\<close>

text \<open>
  \<open>class FileRole(SymbolDef)\<close>: one constructor for each class attribute, in the order
  of the declaration; \<open>symbol_name\<close> is the string assigned to the attribute, which is
  the identifier of the symbol.
\<close>

datatype FileRole =
    unit_source | legacy_whitelist | script | binary | data | i18n | manage_py
  | legal | docs | unknown | build | invalid | vcs | src

fun symbol_name :: "FileRole \<Rightarrow> string" where
  "symbol_name unit_source = ''unit-source''"
| "symbol_name legacy_whitelist = ''legacy-whitelist''"
| "symbol_name script = ''script''"
| "symbol_name binary = ''binary''"
| "symbol_name data = ''data''"
| "symbol_name i18n = ''i18n''"
| "symbol_name manage_py = ''manage.py''"
| "symbol_name legal = ''legal''"
| "symbol_name docs = ''docs''"
| "symbol_name unknown = ''unknown''"
| "symbol_name build = ''build''"
| "symbol_name invalid = ''invalid''"
| "symbol_name vcs = ''vcs''"
| "symbol_name src = ''src''"

text \<open>
  Modelled from the spec: \<open>SymbolDef.get_all_symbols\<close> of \<open>plainbox.impl.symbol\<close>,
  which is not part of this file. It is the "lookup of the full symbol set" of the
  enumeration: every declared symbol, here in the order of the declaration.
\<close>

definition get_all_symbols :: "FileRole list" where
  "get_all_symbols =
     [unit_source, legacy_whitelist, script, binary, data, i18n, manage_py,
      legal, docs, unknown, build, invalid, vcs, src]"

text \<open>
  Modelled from the spec: the comparison of a \<open>Symbol\<close> of \<open>plainbox.impl.symbol\<close>
  with a raw value. "A raw string equal to a symbol's identifier is considered a
  match"; \<open>None\<close> is no string and matches no symbol.
\<close>

fun symbol_eq :: "FileRole \<Rightarrow> string option \<Rightarrow> bool" where
  "symbol_eq symbol None = False"
| "symbol_eq symbol (Some s) = (symbol_name symbol = s)"

text \<open>\<open>value in symbols\<close>: some element of the list compares equal to the value.\<close>

definition py_in :: "string option \<Rightarrow> FileRole list \<Rightarrow> bool" where
  "py_in v syms = list_ex (\<lambda>symbol. symbol_eq symbol v) syms"

text \<open>
  Modelled from the spec: the order and the string form of a \<open>Symbol\<close>. "Equality and
  ordering are by identifier string", so \<open>sorted\<close> sorts the symbols by their
  identifiers (a stable sort, strings compared character by character), and \<open>str\<close> of a
  symbol is its identifier.
\<close>

definition sorted_symbols :: "FileRole list \<Rightarrow> FileRole list" where
  "sorted_symbols syms = sort_key symbol_name syms"

definition symbol_str :: "FileRole \<Rightarrow> string" where
  "symbol_str symbol = symbol_name symbol"

text \<open>\<open>class fields(SymbolDef)\<close> inside \<open>FileUnit.Meta\<close>.\<close>

datatype fields = fields_path | fields_role | fields_base

fun field_name :: "fields \<Rightarrow> string" where
  "field_name fields_path = ''path''"
| "field_name fields_role = ''role''"
| "field_name fields_base = ''base''"

subsection \<open>\<open>FileUnitValidator.explain\<close>\<close>

text \<open>
  The validator object holds \<open>_explain_map\<close>, the stock messages by problem kind; the
  base class \<open>UnitValidator\<close> that fills it is not part of this file, so the map is a
  field of the object and every result below holds for any map. \<open>explain\<close> reads
  neither the unit nor the field. A Python function that reaches its end returns
  \<open>None\<close>.
\<close>

record 'k UnitValidator =
  explain_map :: "'k \<rightharpoonup> string"

definition explain ::
  "'k UnitValidator \<Rightarrow> 'u \<Rightarrow> 'f \<Rightarrow> 'k \<Rightarrow> string option \<Rightarrow> string option" where
  "explain self unit field kind message =
     (let stock_msg = explain_map self kind
      in if py_bool message \<or> py_bool stock_msg then py_or message stock_msg
         else None)"

subsection \<open>\<open>FileUnit\<close>\<close>

text \<open>
  Modelled from the spec: the generic \<open>Unit\<close> record of \<open>plainbox.impl.unit.unit\<close>,
  "a generic key/value record (field name \<rightarrow> raw value)", and its field resolution
  \<open>get_record_value(name)\<close>, which gives the raw value of the field or \<open>None\<close> when the
  field is absent.
\<close>

record FileUnit =
  record_data :: "string \<rightharpoonup> string"

definition get_record_value :: "FileUnit \<Rightarrow> string \<Rightarrow> string option" where
  "get_record_value self name = record_data self name"

definition path :: "FileUnit \<Rightarrow> string option" where
  "path self = get_record_value self ''path''"

definition role :: "FileUnit \<Rightarrow> string option" where
  "role self = get_record_value self ''role''"

text \<open>\<open>__str__\<close> returns \<open>self.path\<close> as it is.\<close>

definition FileUnit_str :: "FileUnit \<Rightarrow> string option" where
  "FileUnit_str self = path self"

text \<open>
  \<open>str(unit)\<close>: the built-in calls \<open>__str__\<close> and raises \<open>TypeError\<close> when the method
  returns something that is no string.
\<close>

definition str_FileUnit :: "FileUnit \<Rightarrow> py_error + string" where
  "str_FileUnit self =
     (case FileUnit_str self of None \<Rightarrow> Inl TypeError | Some s \<Rightarrow> Inr s)"

definition FileUnit_repr :: "FileUnit \<Rightarrow> py_error + string" where
  "FileUnit_repr self =
     py_format ''<FileUnit path:{!r}, role:{!r}>'' [path self, role self]"

text \<open>
  \<open>getattr(unit, str(field))\<close>: the class has the properties \<open>path\<close> and \<open>role\<close> and no
  attribute \<open>base\<close>.
\<close>

fun unit_getattr :: "FileUnit \<Rightarrow> fields \<Rightarrow> py_error + string option" where
  "unit_getattr unit fields_path = Inr (path unit)"
| "unit_getattr unit fields_role = Inr (role unit)"
| "unit_getattr unit fields_base = Inl AttributeError"

subsection \<open>The field validators of \<open>FileUnit.Meta\<close>\<close>

text \<open>
  Modelled from the spec: the problem and severity classifications of
  \<open>plainbox.impl.validation\<close>, which is not part of this file. The source names
  \<open>Problem.deprecated\<close> and \<open>Severity.advice\<close>; the spec names \<open>unknown-symbol\<close> and
  \<open>error\<close> as further examples.
\<close>

datatype Problem = deprecated | unknown_symbol

datatype Severity = advice | error

text \<open>
  The arguments of a call \<open>CorrectFieldValueValidator(correct_fn, kind, severity,
  message=..., onlyif=...)\<close>. An argument the call leaves out is \<open>None\<close>: for \<open>kind\<close> and
  \<open>severity\<close> that asks for the default classification of the validator class. The
  predicate gets the raw value of the field and may raise.
\<close>

record CorrectFieldValueValidator =
  correct_fn :: "string option \<Rightarrow> py_error + bool"
  kind :: "Problem option"
  severity :: "Severity option"
  message :: "string option"
  onlyif :: "(FileUnit \<Rightarrow> bool) option"

text \<open>What a validator reports for a violation.\<close>

record Issue =
  issue_field :: fields
  issue_kind :: Problem
  issue_severity :: Severity
  issue_message :: "string option"

text \<open>
  Modelled from the spec: the evaluation of a field validator, method \<open>check\<close> of
  \<open>CorrectFieldValueValidator\<close> in \<open>plainbox.impl.unit.validators\<close>, which is not part
  of this file. "Resolve the field's current raw value from the unit. If \<open>onlyif\<close> is
  present and evaluates false for the unit, the validator is inert. Otherwise evaluate
  the predicate on the raw value; a false result is a violation. On violation, produce
  an explanation consisting of the offending field, the problem classification, the
  severity classification, and a message", the message being the one \<open>explain\<close> of the
  owning unit validator renders. The default classifications of the validator class are
  the arguments \<open>default_kind\<close> and \<open>default_severity\<close>. The spec does not say what the
  validator makes of a predicate that raises; here the error is the result.
\<close>

definition check ::
  "Problem UnitValidator \<Rightarrow> Problem \<Rightarrow> Severity \<Rightarrow> CorrectFieldValueValidator \<Rightarrow>
   FileUnit \<Rightarrow> fields \<Rightarrow> py_error + Issue option" where
  "check parent default_kind default_severity self unit field =
     (case unit_getattr unit field of
        Inl e \<Rightarrow> Inl e
      | Inr value \<Rightarrow>
          (if (case onlyif self of None \<Rightarrow> False | Some guard \<Rightarrow> \<not> guard unit)
           then Inr None
           else
             (case correct_fn self value of
                Inl e \<Rightarrow> Inl e
              | Inr True \<Rightarrow> Inr None
              | Inr False \<Rightarrow>
                  (let k = (case kind self of None \<Rightarrow> default_kind | Some k \<Rightarrow> k);
                       s = (case severity self of None \<Rightarrow> default_severity | Some s \<Rightarrow> s)
                   in Inr (Some \<lparr>issue_field = field, issue_kind = k, issue_severity = s,
                         issue_message = explain parent unit field k (message self)\<rparr>)))))"

text \<open>The validator fires on a unit when its evaluation reports an issue.\<close>

definition fires :: "py_error + Issue option \<Rightarrow> bool" where
  "fires r = (case r of Inr (Some issue) \<Rightarrow> True | _ \<Rightarrow> False)"

text \<open>
  Modelled from the spec: \<open>gettext\<close> of \<open>plainbox.i18n\<close>. Internationalization is an
  external collaborator; with no translation catalogue the message is returned as it
  is.
\<close>

definition gettext :: "string \<Rightarrow> string" where
  "gettext msg = msg"

text \<open>
  The validator of \<open>fields.path\<close>. The predicate raises \<open>TypeError\<close> on \<open>None\<close>, as
  \<open>os.path.splitext\<close> does; the guard compares the role of the unit with the symbol
  \<open>FileRole.unit_source\<close>. The message is formatted when the class body runs.
\<close>

definition path_message :: "py_error + string" where
  "path_message =
     py_format
       (gettext (''please use .pxu as an extension for all'' @
                 '' files with plainbox units, see: {}''))
       [Some (''http://plainbox.readthedocs.org/en/latest/author/'' @
              ''faq.html#faq-1'')]"

definition path_validator :: "string \<Rightarrow> CorrectFieldValueValidator" where
  "path_validator msg =
     \<lparr>correct_fn =
        (\<lambda>value. case value of
                    None \<Rightarrow> Inl TypeError
                  | Some v \<Rightarrow> Inr (snd (splitext v) = ''.pxu'')),
      kind = Some deprecated,
      severity = Some advice,
      message = Some msg,
      onlyif = Some (\<lambda>unit. symbol_eq unit_source (role unit))\<rparr>"

text \<open>The validator of \<open>fields.role\<close>: no kind, no severity and no guard are given.\<close>

definition role_message :: "py_error + string" where
  "role_message =
     py_format (gettext ''valid values are: {}'')
       [Some (py_join '', '' (map symbol_str (sorted_symbols get_all_symbols)))]"

definition role_validator :: "string \<Rightarrow> CorrectFieldValueValidator" where
  "role_validator msg =
     \<lparr>correct_fn = (\<lambda>value. Inr (py_in value get_all_symbols)),
      kind = None,
      severity = None,
      message = Some msg,
      onlyif = None\<rparr>"

text \<open>
  The dictionary \<open>field_validators\<close>: the two messages are formatted in the order of
  the dictionary display, and an error of either is the error of the class body.
\<close>

definition field_validators ::
  "py_error + (fields \<rightharpoonup> CorrectFieldValueValidator list)" where
  "field_validators =
     (case path_message of
        Inl e \<Rightarrow> Inl e
      | Inr path_msg \<Rightarrow>
          (case role_message of
             Inl e \<Rightarrow> Inl e
           | Inr role_msg \<Rightarrow>
               Inr [fields_path \<mapsto> [path_validator path_msg],
                    fields_role \<mapsto> [role_validator role_msg]]))"

text \<open>\<open>field_validators[field]\<close>: a field with no entry raises \<open>KeyError\<close>.\<close>

definition validators_of :: "fields \<Rightarrow> py_error + CorrectFieldValueValidator list" where
  "validators_of field =
     (case field_validators of
        Inl e \<Rightarrow> Inl e
      | Inr fv \<Rightarrow> (case fv field of None \<Rightarrow> Inl KeyError | Some vs \<Rightarrow> Inr vs))"

text \<open>The two messages written out, for the statements below.\<close>

definition path_advice :: string where
  "path_advice =
     ''please use .pxu as an extension for all files with plainbox units, see: http://plainbox.readthedocs.org/en/latest/author/faq.html#faq-1''"

definition role_advice :: string where
  "role_advice =
     ''valid values are: binary, build, data, docs, i18n, invalid, legacy-whitelist, legal, manage.py, script, src, unit-source, unknown, vcs''"

section \<open>Properties\<close>

subsection \<open>The class body and the evaluation of the two validators\<close>

text \<open>
  Both messages format without an error, so the class body yields the dictionary with
  one validator for \<open>path\<close> and one for \<open>role\<close>.
\<close>

lemma path_message_eq: "path_message = Inr path_advice"
  unfolding path_advice_def by code_simp

lemma role_message_eq: "role_message = Inr role_advice"
  unfolding role_advice_def by code_simp

lemma field_validators_eq:
  "field_validators =
     Inr [fields_path \<mapsto> [path_validator path_advice],
          fields_role \<mapsto> [role_validator role_advice]]"
  by (simp add: field_validators_def path_message_eq role_message_eq)

lemma validators_of_path: "validators_of fields_path = Inr [path_validator path_advice]"
  by (simp add: validators_of_def field_validators_eq)

lemma validators_of_role: "validators_of fields_role = Inr [role_validator role_advice]"
  by (simp add: validators_of_def field_validators_eq)

lemma validators_of_base: "validators_of fields_base = Inl KeyError"
  by (simp add: validators_of_def field_validators_eq)

lemma symbol_eq_unit_source: "symbol_eq unit_source r \<longleftrightarrow> r = Some ''unit-source''"
  by (cases r) auto

lemma explain_custom: "msg \<noteq> [] \<Longrightarrow> explain parent unit field k (Some msg) = Some msg"
  by (simp add: explain_def py_or_def)

lemma check_path_validator:
  "check parent dk ds (path_validator msg) unit fields_path =
     (if role unit \<noteq> Some ''unit-source'' then Inr None
      else case path unit of
             None \<Rightarrow> Inl TypeError
           | Some p \<Rightarrow>
               if snd (splitext p) = ''.pxu'' then Inr None
               else Inr (Some \<lparr>issue_field = fields_path, issue_kind = deprecated,
                      issue_severity = advice,
                      issue_message = explain parent unit fields_path deprecated (Some msg)\<rparr>))"
  by (simp add: check_def path_validator_def symbol_eq_unit_source split: option.splits)

lemma check_role_validator:
  "check parent dk ds (role_validator msg) unit fields_role =
     (if py_in (role unit) get_all_symbols then Inr None
      else Inr (Some \<lparr>issue_field = fields_role, issue_kind = dk, issue_severity = ds,
             issue_message = explain parent unit fields_role dk (Some msg)\<rparr>))"
  by (simp add: check_def role_validator_def)

lemma UNIV_FileRole: "UNIV = set get_all_symbols"
proof -
  have "x \<in> set get_all_symbols" for x
    by (cases x) (simp_all add: get_all_symbols_def)
  then show ?thesis by auto
qed

lemma names_of_all_symbols:
  "map symbol_name get_all_symbols =
     [''unit-source'', ''legacy-whitelist'', ''script'', ''binary'', ''data'', ''i18n'',
      ''manage.py'', ''legal'', ''docs'', ''unknown'', ''build'', ''invalid'', ''vcs'', ''src'']"
  by (simp add: get_all_symbols_def)

lemma py_in_Some: "py_in (Some s) syms \<longleftrightarrow> s \<in> set (map symbol_name syms)"
  by (induction syms) (auto simp: py_in_def)

lemma py_in_None: "\<not> py_in None syms"
  by (induction syms) (auto simp: py_in_def)

lemma sorted_names:
  "map symbol_name (sorted_symbols get_all_symbols) =
     [''binary'', ''build'', ''data'', ''docs'', ''i18n'', ''invalid'', ''legacy-whitelist'',
      ''legal'', ''manage.py'', ''script'', ''src'', ''unit-source'', ''unknown'', ''vcs'']"
  by code_simp


lemma eval_roles:
  "role \<lparr>record_data = [''path'' \<mapsto> p, ''role'' \<mapsto> r]\<rparr> = Some r"
  "path \<lparr>record_data = [''path'' \<mapsto> p, ''role'' \<mapsto> r]\<rparr> = Some p"
  "role \<lparr>record_data = [''path'' \<mapsto> p]\<rparr> = None"
  "path \<lparr>record_data = [''path'' \<mapsto> p]\<rparr> = Some p"
  by (simp_all add: role_def path_def get_record_value_def)

lemma the_role_validator:
  "validators_of fields_role = Inr vs \<Longrightarrow> v \<in> set vs \<Longrightarrow> v = role_validator role_advice"
  by (auto simp: validators_of_role)

lemma the_path_validator:
  "validators_of fields_path = Inr vs \<Longrightarrow> v \<in> set vs \<Longrightarrow> v = path_validator path_advice"
  by (auto simp: validators_of_path)

lemma fires_iff: "fires r \<longleftrightarrow> (\<exists>issue. r = Inr (Some issue))"
  by (auto simp: fires_def split: sum.splits option.splits)


lemma check_path_issue:
  assumes "check parent dk ds (path_validator path_advice) unit fields_path = Inr (Some issue)"
  shows "issue = \<lparr>issue_field = fields_path, issue_kind = deprecated,
                   issue_severity = advice, issue_message = Some path_advice\<rparr>"
proof -
  have ne: "path_advice \<noteq> []"
    by (simp add: path_advice_def)
  from assms show ?thesis
    unfolding check_path_validator explain_custom [OF ne]
    by (auto split: if_splits option.splits)
qed

lemma check_path_fires:
  "role unit = Some ''unit-source'' \<Longrightarrow> path unit = Some p \<Longrightarrow>
   fires (check parent dk ds (path_validator msg) unit fields_path) \<longleftrightarrow>
     snd (splitext p) \<noteq> ''.pxu''"
  by (simp add: check_path_validator fires_def)

lemma splitext_examples:
  "snd (splitext ''suite.txt'') = ''.txt''"
  "snd (splitext ''suite.pxu'') = ''.pxu''"
  "snd (splitext ''run.sh'') = ''.sh''"
  "snd (splitext ''suite.pxu.in'') = ''.in''"
  "snd (splitext ''suite.txt.pxu'') = ''.pxu''"
  "snd (splitext ''suite'') = []"
  by code_simp+

subsection \<open>\<open>os.path.splitext\<close>\<close>

text \<open>
  \<open>rfind\<close> gives the position of the last occurrence. The loop of \<open>splitext\<close> succeeds
  exactly when the file name has a character other than a dot before its last dot, and
  then the split is at that dot.
\<close>

lemma rfind_from_notin: "c \<notin> set xs \<Longrightarrow> rfind_from xs c i f = f"
  by (induction xs arbitrary: i f) auto

lemma rfind_from_last:
  "c \<notin> set b \<Longrightarrow> rfind_from (a @ c # b) c i f = i + int (length a)"
  by (induction a arbitrary: i f) (auto simp: rfind_from_notin)

lemma rfind_notin: "c \<notin> set p \<Longrightarrow> rfind p c = - 1"
  by (simp add: rfind_def rfind_from_notin)

lemma rfind_last: "c \<notin> set b \<Longrightarrow> rfind (a @ c # b) c = int (length a)"
  by (simp add: rfind_def rfind_from_last)

lemma splitext_loop_Some:
  "splitext_loop p i d = Some r \<Longrightarrow> r = (take d p, drop d p)"
proof (induction p i d rule: splitext_loop.induct)
  case (1 p i d)
  then show ?case
    by (subst (asm) splitext_loop.simps) (auto split: if_splits)
qed

lemma splitext_loop_eq:
  "d \<le> length p \<Longrightarrow>
   splitext_loop p i d =
     (if \<exists>c\<in>set (drop i (take d p)). c \<noteq> CHR ''.'' then Some (take d p, drop d p)
      else None)"
proof (induction p i d rule: splitext_loop.induct)
  case (1 p i d)
  show ?case
  proof (cases "i < d")
    case False
    then show ?thesis by (subst splitext_loop.simps) simp
  next
    case True
    with 1(2) have c: "drop i (take d p) = p ! i # drop (Suc i) (take d p)"
      by (simp add: Cons_nth_drop_Suc [symmetric])
    show ?thesis
    proof (cases "p ! i = CHR ''.''")
      case False
      with True show ?thesis by (subst splitext_loop.simps) (simp add: c)
    next
      case dot: True
      from 1(1) [OF True _ 1(2)] dot True show ?thesis
        by (subst splitext_loop.simps) (simp add: c)
    qed
  qed
qed

lemma splitext_append: "fst (splitext p) @ snd (splitext p) = p"
  by (auto simp: splitext_def Let_def split: option.splits dest: splitext_loop_Some)

lemma rfind_sep:
  assumes "CHR ''/'' \<notin> set rest" and "dir = [] \<or> last dir = CHR ''/''"
  shows "rfind (dir @ rest) CHR ''/'' = int (length dir) - 1"
proof (cases "dir = []")
  case True
  with assms show ?thesis by (simp add: rfind_notin)
next
  case False
  with assms obtain d where d: "dir = d @ [CHR ''/'']"
    by (metis append_butlast_last_id)
  have "rfind (d @ CHR ''/'' # rest) CHR ''/'' = int (length d)"
    using assms(1) by (rule rfind_last)
  then show ?thesis
    unfolding d by simp
qed

lemma splitext_parts:
  assumes "CHR ''/'' \<notin> set name" and "CHR ''/'' \<notin> set e" and "CHR ''.'' \<notin> set e"
    and "dir = [] \<or> last dir = CHR ''/''"
  shows "splitext (dir @ name @ CHR ''.'' # e) =
           (if \<exists>c\<in>set name. c \<noteq> CHR ''.'' then (dir @ name, CHR ''.'' # e)
            else (dir @ name @ CHR ''.'' # e, []))"
proof -
  let ?p = "dir @ name @ CHR ''.'' # e"
  have sep: "rfind ?p CHR ''/'' = int (length dir) - 1"
    using assms by (intro rfind_sep) auto
  have "?p = (dir @ name) @ CHR ''.'' # e" by simp
  then have dot: "rfind ?p CHR ''.'' = int (length (dir @ name))"
    using assms(3) rfind_last by metis
  have loop: "splitext_loop ?p (length dir) (length dir + length name) =
     (if \<exists>c\<in>set name. c \<noteq> CHR ''.'' then Some (dir @ name, CHR ''.'' # e) else None)"
    by (subst splitext_loop_eq) simp_all
  show ?thesis
    unfolding splitext_def sep dot by (simp add: loop nat_int_add)
qed

lemma split_last_sep:
  "\<exists>dir base. p = dir @ base \<and> CHR ''/'' \<notin> set base \<and> (dir = [] \<or> last dir = CHR ''/'')"
proof (cases "CHR ''/'' \<in> set p")
  case False
  then have "p = [] @ p \<and> CHR ''/'' \<notin> set p \<and> ([] = [] \<or> last [] = CHR ''/'')" by simp
  then show ?thesis by blast
next
  case True
  then obtain a b where "p = a @ CHR ''/'' # b" "CHR ''/'' \<notin> set b"
    using split_list_last by metis
  then have "p = (a @ [CHR ''/'']) @ b \<and> CHR ''/'' \<notin> set b \<and>
             (a @ [CHR ''/''] = [] \<or> last (a @ [CHR ''/'']) = CHR ''/'')" by simp
  then show ?thesis by blast
qed

lemma splitext_pxu_iff:
  "snd (splitext p) = ''.pxu'' \<longleftrightarrow>
     (\<exists>dir name. p = dir @ name @ ''.pxu'' \<and> (dir = [] \<or> last dir = CHR ''/'') \<and>
                  CHR ''/'' \<notin> set name \<and> (\<exists>c\<in>set name. c \<noteq> CHR ''.''))"
  (is "?L \<longleftrightarrow> ?R")
proof
  assume ?R
  then obtain dir name where p: "p = dir @ name @ CHR ''.'' # ''pxu''"
    and d: "dir = [] \<or> last dir = CHR ''/''" and n: "CHR ''/'' \<notin> set name"
    and c: "\<exists>c\<in>set name. c \<noteq> CHR ''.''" by auto
  have "splitext p = (dir @ name, CHR ''.'' # ''pxu'')"
    unfolding p using c by (subst splitext_parts [OF n _ _ d]) simp_all
  then show ?L by simp
next
  assume L: ?L
  obtain dir base where b: "p = dir @ base" "CHR ''/'' \<notin> set base"
    "dir = [] \<or> last dir = CHR ''/''"
    using split_last_sep by blast
  show ?R
  proof (cases "CHR ''.'' \<in> set base")
    case False
    have sep: "rfind (dir @ base) CHR ''/'' = int (length dir) - 1"
      using b by (intro rfind_sep) auto
    have "snd (splitext p) = []"
    proof (cases "CHR ''.'' \<in> set dir")
      case False
      with \<open>CHR ''.'' \<notin> set base\<close> have "rfind (dir @ base) CHR ''.'' = - 1"
        by (simp add: rfind_notin)
      then show ?thesis unfolding b(1) splitext_def sep by simp
    next
      case True
      then obtain a c where a: "dir = a @ CHR ''.'' # c" "CHR ''.'' \<notin> set c"
        using split_list_last by metis
      then have "dir @ base = a @ CHR ''.'' # (c @ base)" by simp
      moreover have "CHR ''.'' \<notin> set (c @ base)" using a False by simp
      ultimately have dot: "rfind (dir @ base) CHR ''.'' = int (length a)"
        using rfind_last by metis
      from a b(3) have "c \<noteq> []" by auto
      then have "int (length a) \<le> int (length dir) - 1"
        unfolding a(1) by (cases c) simp_all
      then show ?thesis unfolding b(1) splitext_def sep dot by simp
    qed
    with L show ?thesis by simp
  next
    case True
    then obtain name e where n: "base = name @ CHR ''.'' # e" "CHR ''.'' \<notin> set e"
      using split_list_last by metis
    with b(2) have s: "CHR ''/'' \<notin> set name" "CHR ''/'' \<notin> set e" by auto
    have sp: "splitext p =
           (if \<exists>c\<in>set name. c \<noteq> CHR ''.'' then (dir @ name, CHR ''.'' # e)
            else (dir @ name @ CHR ''.'' # e, []))"
      unfolding b(1) n(1) by (rule splitext_parts [OF s n(2) b(3)])
    with L have c: "\<exists>c\<in>set name. c \<noteq> CHR ''.''" and e: "e = ''pxu''"
      by (auto split: if_splits)
    have "p = dir @ name @ ''.pxu''" unfolding b(1) n(1) e by simp
    with b(3) s(1) c show ?thesis by blast
  qed
qed

subsection \<open>The sorted symbols and \<open>repr\<close> of plain strings\<close>

lemma sorted_names_sorted: "sorted (map symbol_name (sorted_symbols get_all_symbols))"
  unfolding sorted_symbols_def by (rule sorted_sort_key)

lemma mset_sorted_symbols: "mset (sorted_symbols syms) = mset syms"
  unfolding sorted_symbols_def by simp

lemma role_advice_join:
  "role_advice =
     ''valid values are: '' @ py_join '', '' (map symbol_str (sorted_symbols get_all_symbols))"
proof -
  have "map symbol_str (sorted_symbols get_all_symbols) =
          map symbol_name (sorted_symbols get_all_symbols)"
    by (simp add: symbol_str_def)
  then show ?thesis
    unfolding sorted_names role_advice_def by simp
qed

lemma FileUnit_repr_eq:
  "FileUnit_repr u =
     Inr (''<FileUnit path:'' @ py_repr (path u) @ '', role:'' @ py_repr (role u) @ ''>'')"
  by (simp add: FileUnit_repr_def sum_cons_def)

lemma repr_char_plain:
  "py_isprintable c \<Longrightarrow> c \<noteq> CHR 0x5C \<Longrightarrow> c \<noteq> q \<Longrightarrow> repr_char q c = [c]"
  by (auto simp: repr_char_def py_isprintable_def)

lemma concat_repr_char_plain:
  "\<forall>c\<in>set s. py_isprintable c \<and> c \<noteq> CHR 0x5C \<and> c \<noteq> q \<Longrightarrow>
   concat (map (repr_char q) s) = s"
  by (induction s) (simp_all add: repr_char_plain)

lemma str_repr_plain:
  assumes "\<forall>c\<in>set s. py_isprintable c \<and> c \<noteq> CHR 0x5C"
    and "CHR 0x27 \<notin> set s \<or> CHR 0x22 \<notin> set s"
  shows "str_repr s = [repr_quote s] @ s @ [repr_quote s]"
proof -
  have "\<forall>c\<in>set s. c \<noteq> repr_quote s"
    using assms(2) by (auto simp: repr_quote_def)
  with assms(1) have "concat (map (repr_char (repr_quote s)) s) = s"
    by (intro concat_repr_char_plain) blast
  then show ?thesis by (simp add: str_repr_def Let_def)
qed


lemma repr_char_length:
  "length (repr_char q c) = 1 \<longleftrightarrow> py_isprintable c \<and> c \<noteq> CHR 0x5C \<and> c \<noteq> q"
  by (auto simp: repr_char_def py_isprintable_def)

lemma repr_char_nonempty: "1 \<le> length (repr_char q c)"
  by (simp add: repr_char_def)

lemma concat_repr_char_length: "length s \<le> length (concat (map (repr_char q) s))"
proof (induction s)
  case Nil
  show ?case by simp
next
  case (Cons a s)
  with repr_char_nonempty [of q a] show ?case by simp
qed

lemma concat_repr_char_eq_iff:
  "concat (map (repr_char q) s) = s \<longleftrightarrow>
     (\<forall>c\<in>set s. py_isprintable c \<and> c \<noteq> CHR 0x5C \<and> c \<noteq> q)"
proof
  assume "\<forall>c\<in>set s. py_isprintable c \<and> c \<noteq> CHR 0x5C \<and> c \<noteq> q"
  then show "concat (map (repr_char q) s) = s"
    by (rule concat_repr_char_plain)
next
  assume "concat (map (repr_char q) s) = s"
  then show "\<forall>c\<in>set s. py_isprintable c \<and> c \<noteq> CHR 0x5C \<and> c \<noteq> q"
  proof (induction s)
    case Nil
    show ?case by simp
  next
    case (Cons a s)
    let ?rest = "concat (map (repr_char q) s)"
    from Cons.prems have eq: "repr_char q a @ ?rest = a # s" by simp
    then have "length (repr_char q a) + length ?rest = Suc (length s)"
      by (metis length_append length_Cons)
    with concat_repr_char_length [of s q] repr_char_nonempty [of q a]
    have one: "length (repr_char q a) = 1" by linarith
    with repr_char_length [of q a]
    have plain: "py_isprintable a \<and> a \<noteq> CHR 0x5C \<and> a \<noteq> q"
      by blast
    then have "repr_char q a = [a]" by (simp add: repr_char_plain)
    with eq have "?rest = s" by simp
    with Cons.IH plain show ?case by simp
  qed
qed

lemma str_repr_plain_iff:
  "str_repr s = [repr_quote s] @ s @ [repr_quote s] \<longleftrightarrow>
     (\<forall>c\<in>set s. py_isprintable c \<and> c \<noteq> CHR 0x5C) \<and>
     (CHR 0x27 \<notin> set s \<or> CHR 0x22 \<notin> set s)"
proof -
  have q: "(\<forall>c\<in>set s. c \<noteq> repr_quote s) \<longleftrightarrow> (CHR 0x27 \<notin> set s \<or> CHR 0x22 \<notin> set s)"
    by (auto simp: repr_quote_def)
  have "str_repr s = [repr_quote s] @ s @ [repr_quote s] \<longleftrightarrow>
          concat (map (repr_char (repr_quote s)) s) = s"
    by (simp add: str_repr_def Let_def)
  also have "\<dots> \<longleftrightarrow>
     (\<forall>c\<in>set s. py_isprintable c \<and> c \<noteq> CHR 0x5C \<and> c \<noteq> repr_quote s)"
    by (rule concat_repr_char_eq_iff)
  also have "\<dots> \<longleftrightarrow> (\<forall>c\<in>set s. py_isprintable c \<and> c \<noteq> CHR 0x5C) \<and>
     (CHR 0x27 \<notin> set s \<or> CHR 0x22 \<notin> set s)"
    using q by blast
  finally show ?thesis .
qed

subsection \<open>\<open>explain\<close>\<close>

text \<open>
  C3. For every unit, field, problem kind and message, \<open>explain\<close> returns the message
  of the validator when it is non-empty; otherwise the stock message of the problem
  kind when there is one; otherwise \<open>None\<close>: no message is made up. "Non-empty" and
  "there is one" are the truth test the code applies to both values, \<open>py_bool\<close>: a
  message that is \<open>None\<close> or the empty string counts as absent, for the stock message
  as for the custom one. The three cases cover every input, for any map of stock
  messages.
\<close>

theorem explain_custom_stock_or_none:
  "(py_bool msg \<longrightarrow> explain self unit field k msg = msg) \<and>
   (\<not> py_bool msg \<and> py_bool (explain_map self k) \<longrightarrow>
      explain self unit field k msg = explain_map self k) \<and>
   (\<not> py_bool msg \<and> \<not> py_bool (explain_map self k) \<longrightarrow>
      explain self unit field k msg = None)"
  by (simp add: explain_def py_or_def)

theorem explain_custom_stock_or_none_witness:
  "explain \<lparr>explain_map = [deprecated \<mapsto> ''stock'']\<rparr> () fields_path deprecated
     (Some ''custom'') = Some ''custom'' \<and>
   explain \<lparr>explain_map = [deprecated \<mapsto> ''stock'']\<rparr> () fields_path deprecated
     (Some []) = Some ''stock'' \<and>
   explain \<lparr>explain_map = [deprecated \<mapsto> ''stock'']\<rparr> () fields_path deprecated
     None = Some ''stock'' \<and>
   explain \<lparr>explain_map = [deprecated \<mapsto> ''stock'']\<rparr> () fields_path unknown_symbol
     None = None \<and>
   explain \<lparr>explain_map = [deprecated \<mapsto> []]\<rparr> () fields_path deprecated
     (Some []) = None"
proof -
  let ?v = "\<lparr>explain_map = [deprecated \<mapsto> ''stock'']\<rparr>"
  let ?w = "\<lparr>explain_map = [deprecated \<mapsto> []]\<rparr> :: Problem UnitValidator"
  have a: "explain ?v () fields_path deprecated (Some ''custom'') = Some ''custom''"
    using explain_custom_stock_or_none
      [of "Some ''custom''" ?v "()" fields_path deprecated] by simp
  have b: "explain ?v () fields_path deprecated (Some []) = Some ''stock''"
    using explain_custom_stock_or_none [of "Some []" ?v "()" fields_path deprecated]
    by simp
  have c: "explain ?v () fields_path deprecated None = Some ''stock''"
    using explain_custom_stock_or_none [of None ?v "()" fields_path deprecated] by simp
  have d: "explain ?v () fields_path unknown_symbol None = None"
    using explain_custom_stock_or_none [of None ?v "()" fields_path unknown_symbol]
    by simp
  have e: "explain ?w () fields_path deprecated (Some []) = None"
    using explain_custom_stock_or_none [of "Some []" ?w "()" fields_path deprecated]
    by simp
  from a b c d e show ?thesis by blast
qed

subsection \<open>The vocabulary of \<open>FileRole\<close>\<close>

text \<open>
  C4, as stated: the identifiers of the declared symbols are unit-source,
  legacy-whitelist, script, binary, data, i18n, manage-script, legal, docs, unknown,
  build, invalid, vcs, src. The declaration has no symbol \<open>manage-script\<close>: the
  attribute \<open>manage_py\<close> has the identifier \<open>manage.py\<close>, so the two sets differ.
\<close>

theorem role_vocabulary_counterexample:
  "range symbol_name \<noteq>
     {''unit-source'', ''legacy-whitelist'', ''script'', ''binary'', ''data'', ''i18n'',
      ''manage-script'', ''legal'', ''docs'', ''unknown'', ''build'', ''invalid'', ''vcs'',
      ''src''}"
proof
  assume eq: "range symbol_name =
     {''unit-source'', ''legacy-whitelist'', ''script'', ''binary'', ''data'', ''i18n'',
      ''manage-script'', ''legal'', ''docs'', ''unknown'', ''build'', ''invalid'', ''vcs'',
      ''src''}"
  have "symbol_name manage_py \<in> range symbol_name" by (rule rangeI)
  with eq show False by simp
qed


text \<open>
  C4, amended: the identifiers of the declared symbols are exactly the fourteen strings
  unit-source, legacy-whitelist, script, binary, data, i18n, manage.py, legal, docs,
  unknown, build, invalid, vcs, src.
\<close>

theorem role_vocabulary:
  "range symbol_name =
     {''unit-source'', ''legacy-whitelist'', ''script'', ''binary'', ''data'', ''i18n'',
      ''manage.py'', ''legal'', ''docs'', ''unknown'', ''build'', ''invalid'', ''vcs'',
      ''src''} \<and>
   card (range symbol_name) = 14"
proof -
  have "range symbol_name = set (map symbol_name get_all_symbols)"
    by (simp add: UNIV_FileRole)
  then have r: "range symbol_name =
     {''unit-source'', ''legacy-whitelist'', ''script'', ''binary'', ''data'', ''i18n'',
      ''manage.py'', ''legal'', ''docs'', ''unknown'', ''build'', ''invalid'', ''vcs'',
      ''src''}"
    unfolding names_of_all_symbols by simp
  have "card (range symbol_name) = 14"
    unfolding r by simp
  with r show ?thesis by blast
qed

theorem role_vocabulary_witness:
  "''manage.py'' \<in> range symbol_name \<and> ''manage-script'' \<notin> range symbol_name"
  unfolding role_vocabulary [THEN conjunct1] by simp

subsection \<open>The membership test of the role validator\<close>

text \<open>
  C5. For every string \<open>s\<close>, the test of the validator registered on \<open>role\<close>,
  \<open>s in FileRole.get_all_symbols()\<close>, is true when \<open>s\<close> is the identifier of a declared
  symbol and false for every other string: a symbol compares equal to the string that
  is its identifier. The declared identifiers are the fourteen of the declaration.
\<close>

theorem role_membership_test:
  assumes "validators_of fields_role = Inr vs" and "v \<in> set vs"
  shows "correct_fn v (Some s) = Inr (s \<in> range symbol_name) \<and>
         (s \<in> range symbol_name \<longleftrightarrow>
            s \<in> {''unit-source'', ''legacy-whitelist'', ''script'', ''binary'', ''data'',
                 ''i18n'', ''manage.py'', ''legal'', ''docs'', ''unknown'', ''build'',
                 ''invalid'', ''vcs'', ''src''})"
proof -
  from assms have v: "v = role_validator role_advice"
    by (rule the_role_validator)
  have r: "range symbol_name = set (map symbol_name get_all_symbols)"
    by (simp add: UNIV_FileRole)
  have "correct_fn v (Some s) = Inr (s \<in> range symbol_name)"
    unfolding v r by (simp add: role_validator_def py_in_Some)
  moreover have "s \<in> range symbol_name \<longleftrightarrow>
            s \<in> {''unit-source'', ''legacy-whitelist'', ''script'', ''binary'', ''data'',
                 ''i18n'', ''manage.py'', ''legal'', ''docs'', ''unknown'', ''build'',
                 ''invalid'', ''vcs'', ''src''}"
    unfolding r names_of_all_symbols by simp
  ultimately show ?thesis by blast
qed

theorem role_membership_test_witness:
  "correct_fn (role_validator role_advice) (Some ''docs'') = Inr True \<and>
   correct_fn (role_validator role_advice) (Some ''bogus'') = Inr False \<and>
   correct_fn (role_validator role_advice) (Some ''manage-script'') = Inr False"
proof -
  have m: "role_validator role_advice \<in> set [role_validator role_advice]" by simp
  note t = role_membership_test [OF validators_of_role m]
  have "correct_fn (role_validator role_advice) (Some ''docs'') = Inr True"
    using t [of "''docs''"] by simp
  moreover have "correct_fn (role_validator role_advice) (Some ''bogus'') = Inr False"
    using t [of "''bogus''"] by simp
  moreover have "correct_fn (role_validator role_advice) (Some ''manage-script'') = Inr False"
    using t [of "''manage-script''"] by simp
  ultimately show ?thesis by blast
qed

subsection \<open>The fields of \<open>FileUnit.Meta\<close>\<close>

text \<open>
  C9. The field names declared by \<open>Meta.fields\<close> are exactly \<open>path\<close>, \<open>role\<close> and
  \<open>base\<close>. The dictionary \<open>field_validators\<close> has the keys \<open>path\<close> and \<open>role\<close> only, and
  under each of them a list of one validator: the extension validator under \<open>path\<close>, the
  membership validator under \<open>role\<close>. \<open>base\<close> is a field name with no entry, so looking
  it up raises \<open>KeyError\<close>; \<open>path\<close> and \<open>role\<close> are the only fields for which the lookup
  gives a validator.
\<close>

theorem declared_fields_and_validators:
  "range field_name = {''path'', ''role'', ''base''} \<and>
   (\<exists>fv. field_validators = Inr fv \<and> dom fv = {fields_path, fields_role} \<and>
         fv fields_base = None \<and>
         fv fields_path = Some [path_validator path_advice] \<and>
         fv fields_role = Some [role_validator role_advice]) \<and>
   validators_of fields_path = Inr [path_validator path_advice] \<and>
   validators_of fields_role = Inr [role_validator role_advice] \<and>
   validators_of fields_base = Inl KeyError \<and>
   (\<forall>f. (\<exists>w ws. validators_of f = Inr (w # ws)) \<longleftrightarrow> f = fields_path \<or> f = fields_role)"
proof -
  have u: "(UNIV :: fields set) = {fields_path, fields_role, fields_base}"
  proof -
    have "x \<in> {fields_path, fields_role, fields_base}" for x by (cases x) simp_all
    then show ?thesis by auto
  qed
  have a: "range field_name = {''path'', ''role'', ''base''}"
    unfolding u by simp
  have b: "\<exists>fv. field_validators = Inr fv \<and> dom fv = {fields_path, fields_role} \<and>
         fv fields_base = None \<and>
         fv fields_path = Some [path_validator path_advice] \<and>
         fv fields_role = Some [role_validator role_advice]"
    unfolding field_validators_eq by auto
  have c: "(\<exists>w ws. validators_of f = Inr (w # ws)) \<longleftrightarrow> f = fields_path \<or> f = fields_role"
    for f
    by (cases f) (simp_all add: validators_of_path validators_of_role validators_of_base)
  from a b c validators_of_path validators_of_role validators_of_base
  show ?thesis by blast
qed

theorem declared_fields_and_validators_witness:
  "''base'' \<in> range field_name \<and> validators_of fields_base = Inl KeyError \<and>
   length (projr (validators_of fields_path)) = 1 \<and>
   length (projr (validators_of fields_role)) = 1"
  using declared_fields_and_validators by simp

subsection \<open>The extension validator of \<open>path\<close>\<close>

text \<open>
  C1. The validator registered on \<open>path\<close> fires on a unit if and only if the role of
  the unit is \<open>unit-source\<close> and the extension of its path, as \<open>os.path.splitext\<close> gives
  it, is not \<open>.pxu\<close>. When the role is not \<open>unit-source\<close> the guard makes it inert for
  every value of the path, a missing path included: the evaluation returns no issue and
  no error. The witness runs \<open>suite.txt\<close> and \<open>suite.pxu\<close> with role \<open>unit-source\<close>,
  \<open>run.sh\<close> with role \<open>script\<close>, and a unit with no field at all.
\<close>

theorem path_validator_fires_iff:
  assumes "validators_of fields_path = Inr vs" and "v \<in> set vs"
  shows "(path unit = Some p \<longrightarrow>
            (fires (check parent dk ds v unit fields_path) \<longleftrightarrow>
               role unit = Some ''unit-source'' \<and> snd (splitext p) \<noteq> ''.pxu'')) \<and>
         (role unit \<noteq> Some ''unit-source'' \<longrightarrow>
            check parent dk ds v unit fields_path = Inr None)"
proof -
  from assms have v: "v = path_validator path_advice"
    by (rule the_path_validator)
  show ?thesis
    unfolding v check_path_validator by (simp add: fires_def)
qed

theorem path_validator_fires_iff_witness:
  "fires (check \<lparr>explain_map = Map.empty\<rparr> unknown_symbol error (path_validator path_advice)
     \<lparr>record_data = [''path'' \<mapsto> ''suite.txt'', ''role'' \<mapsto> ''unit-source'']\<rparr> fields_path) \<and>
   \<not> fires (check \<lparr>explain_map = Map.empty\<rparr> unknown_symbol error (path_validator path_advice)
     \<lparr>record_data = [''path'' \<mapsto> ''suite.pxu'', ''role'' \<mapsto> ''unit-source'']\<rparr> fields_path) \<and>
   check \<lparr>explain_map = Map.empty\<rparr> unknown_symbol error (path_validator path_advice)
     \<lparr>record_data = [''path'' \<mapsto> ''run.sh'', ''role'' \<mapsto> ''script'']\<rparr> fields_path = Inr None \<and>
   check \<lparr>explain_map = Map.empty\<rparr> unknown_symbol error (path_validator path_advice)
     \<lparr>record_data = Map.empty\<rparr> fields_path = Inr None"
proof -
  have m: "path_validator path_advice \<in> set [path_validator path_advice]" by simp
  note t = path_validator_fires_iff [OF validators_of_path m]
  let ?P = "\<lparr>explain_map = Map.empty\<rparr> :: Problem UnitValidator"
  let ?a = "\<lparr>record_data = [''path'' \<mapsto> ''suite.txt'', ''role'' \<mapsto> ''unit-source'']\<rparr>"
  let ?b = "\<lparr>record_data = [''path'' \<mapsto> ''suite.pxu'', ''role'' \<mapsto> ''unit-source'']\<rparr>"
  let ?c = "\<lparr>record_data = [''path'' \<mapsto> ''run.sh'', ''role'' \<mapsto> ''script'']\<rparr>"
  let ?d = "\<lparr>record_data = Map.empty\<rparr>"
  have a: "fires (check ?P unknown_symbol error (path_validator path_advice) ?a fields_path)"
    using t [of ?a "''suite.txt''" ?P unknown_symbol error]
    by (simp add: eval_roles splitext_examples)
  have b: "\<not> fires (check ?P unknown_symbol error (path_validator path_advice) ?b fields_path)"
    using t [of ?b "''suite.pxu''" ?P unknown_symbol error]
    by (simp add: eval_roles splitext_examples)
  have c: "check ?P unknown_symbol error (path_validator path_advice) ?c fields_path = Inr None"
    using t [of ?c "''run.sh''" ?P unknown_symbol error]
    by (simp add: eval_roles)
  have d: "check ?P unknown_symbol error (path_validator path_advice) ?d fields_path = Inr None"
    using t [of ?d "''x''" ?P unknown_symbol error]
    by (simp add: role_def get_record_value_def)
  from a b c d show ?thesis by blast
qed

subsection \<open>The message of the role validator\<close>

text \<open>
  C6. The validator registered on \<open>role\<close> is given no kind and no severity, so a
  violation it reports carries the default classification of the validator class. Its
  message is \<open>valid values are:\<close> followed by the identifiers of all the symbols of
  \<open>FileRole\<close>, sorted by identifier and joined with a comma and a space: the sorted list
  is a permutation of the symbol set and its identifiers are in ascending order, so the
  message is one fixed string, written out below. The message of the issue is this
  message, for every unit and every owning validator.
\<close>

theorem role_validator_message_sorted:
  assumes "validators_of fields_role = Inr vs" and "v \<in> set vs"
  shows "kind v = None \<and> severity v = None \<and>
         message v =
           Some (''valid values are: '' @
                 py_join '', '' (map symbol_str (sorted_symbols get_all_symbols))) \<and>
         sorted (map symbol_name (sorted_symbols get_all_symbols)) \<and>
         mset (sorted_symbols get_all_symbols) = mset get_all_symbols \<and>
         message v =
           Some ''valid values are: binary, build, data, docs, i18n, invalid, legacy-whitelist, legal, manage.py, script, src, unit-source, unknown, vcs'' \<and>
         (check parent dk ds v unit fields_role = Inr (Some issue) \<longrightarrow>
            issue_severity issue = ds \<and> issue_kind issue = dk \<and>
            issue_message issue = message v)"
proof -
  from assms have v: "v = role_validator role_advice"
    by (rule the_role_validator)
  have k: "kind v = None" "severity v = None" "message v = Some role_advice"
    unfolding v by (simp_all add: role_validator_def)
  have ne: "role_advice \<noteq> []"
    by (simp add: role_advice_def)
  have c: "check parent dk ds v unit fields_role = Inr (Some issue) \<longrightarrow>
            issue_severity issue = ds \<and> issue_kind issue = dk \<and>
            issue_message issue = message v"
    unfolding k unfolding v check_role_validator
    by (auto simp: explain_custom [OF ne] split: if_splits)
  have lit: "message v = Some ''valid values are: binary, build, data, docs, i18n, invalid, legacy-whitelist, legal, manage.py, script, src, unit-source, unknown, vcs''"
    unfolding k by (simp add: role_advice_def)
  have j: "message v =
           Some (''valid values are: '' @
                 py_join '', '' (map symbol_str (sorted_symbols get_all_symbols)))"
    unfolding k using role_advice_join by simp
  from k(1,2) j sorted_names_sorted mset_sorted_symbols lit c show ?thesis by blast
qed

theorem role_validator_message_sorted_witness:
  "issue_message (the (projr (check \<lparr>explain_map = Map.empty\<rparr> unknown_symbol error
     (role_validator role_advice)
     \<lparr>record_data = [''path'' \<mapsto> ''a'', ''role'' \<mapsto> ''bogus'']\<rparr> fields_role))) =
   Some ''valid values are: binary, build, data, docs, i18n, invalid, legacy-whitelist, legal, manage.py, script, src, unit-source, unknown, vcs'' \<and>
   issue_severity (the (projr (check \<lparr>explain_map = Map.empty\<rparr> unknown_symbol error
     (role_validator role_advice)
     \<lparr>record_data = [''path'' \<mapsto> ''a'', ''role'' \<mapsto> ''bogus'']\<rparr> fields_role))) = error"
proof -
  have m: "role_validator role_advice \<in> set [role_validator role_advice]" by simp
  let ?P = "\<lparr>explain_map = Map.empty\<rparr> :: Problem UnitValidator"
  let ?u = "\<lparr>record_data = [''path'' \<mapsto> ''a'', ''role'' \<mapsto> ''bogus'']\<rparr>"
  let ?r = "check ?P unknown_symbol error (role_validator role_advice) ?u fields_role"
  have "\<not> py_in (role ?u) get_all_symbols"
    by (simp add: eval_roles py_in_Some names_of_all_symbols)
  then obtain issue where i: "?r = Inr (Some issue)"
    by (simp add: check_role_validator)
  note t = role_validator_message_sorted [OF validators_of_role m,
      of ?P unknown_symbol error ?u issue]
  note rest = t [THEN conjunct2, THEN conjunct2, THEN conjunct2, THEN conjunct2,
      THEN conjunct2]
  from rest [THEN conjunct1] rest [THEN conjunct2] i
  have "issue_message issue = Some ''valid values are: binary, build, data, docs, i18n, invalid, legacy-whitelist, legal, manage.py, script, src, unit-source, unknown, vcs''"
    and "issue_severity issue = error"
    by simp_all
  then show ?thesis unfolding i by simp
qed

subsection \<open>The classification and the message of the path validator\<close>

text \<open>
  C7. Every issue the validator registered on \<open>path\<close> reports, for any unit, any
  owning validator and any default classification, has the field \<open>path\<close>, the kind
  \<open>deprecated\<close>, the severity \<open>advice\<close> and the message of the validator; and it does
  report one, for a unit-source file named \<open>suite.txt\<close>. The validator is constructed
  with this kind, this severity and one message, formatted once when the class body
  runs: it recommends the extension \<open>.pxu\<close> and ends with the address of the
  documentation. \<open>explain\<close> renders this message for every unit, whatever stock message
  the kind has, so the message does not depend on the offending path.
\<close>

theorem path_validator_classification:
  assumes "validators_of fields_path = Inr vs" and "v \<in> set vs"
  shows "kind v = Some deprecated \<and> severity v = Some advice \<and>
         message v =
           Some ''please use .pxu as an extension for all files with plainbox units, see: http://plainbox.readthedocs.org/en/latest/author/faq.html#faq-1'' \<and>
         sublist ''http://plainbox.readthedocs.org/en/latest/author/faq.html#faq-1''
           (the (message v)) \<and>
         sublist ''please use .pxu as an extension'' (the (message v)) \<and>
         explain parent unit fields_path deprecated (message v) = message v \<and>
         (check parent dk ds v unit fields_path = Inr (Some issue) \<longrightarrow>
            issue_field issue = fields_path \<and> issue_kind issue = deprecated \<and>
            issue_severity issue = advice \<and> issue_message issue = message v) \<and>
         (\<exists>u i. check parent dk ds v u fields_path = Inr (Some i))"
proof -
  from assms have v: "v = path_validator path_advice"
    by (rule the_path_validator)
  have k: "kind v = Some deprecated" "severity v = Some advice"
    "message v = Some path_advice"
    unfolding v by (simp_all add: path_validator_def)
  have ne: "path_advice \<noteq> []"
    by (simp add: path_advice_def)
  have lit: "message v = Some ''please use .pxu as an extension for all files with plainbox units, see: http://plainbox.readthedocs.org/en/latest/author/faq.html#faq-1''"
    unfolding k by (simp add: path_advice_def)
  have "path_advice = ''please use .pxu as an extension for all files with plainbox units, see: '' @ ''http://plainbox.readthedocs.org/en/latest/author/faq.html#faq-1'' @ []"
    by (simp add: path_advice_def)
  then have url: "sublist ''http://plainbox.readthedocs.org/en/latest/author/faq.html#faq-1''
           (the (message v))"
    unfolding k sublist_def option.sel by blast
  have "path_advice = [] @ ''please use .pxu as an extension'' @ '' for all files with plainbox units, see: http://plainbox.readthedocs.org/en/latest/author/faq.html#faq-1''"
    by (simp add: path_advice_def)
  then have pxu: "sublist ''please use .pxu as an extension'' (the (message v))"
    unfolding k sublist_def option.sel by blast
  have e: "explain parent unit fields_path deprecated (message v) = message v"
    unfolding k by (rule explain_custom [OF ne])
  have i: "check parent dk ds v unit fields_path = Inr (Some issue) \<longrightarrow>
            issue_field issue = fields_path \<and> issue_kind issue = deprecated \<and>
            issue_severity issue = advice \<and> issue_message issue = message v"
  proof
    assume "check parent dk ds v unit fields_path = Inr (Some issue)"
    then have "issue = \<lparr>issue_field = fields_path, issue_kind = deprecated,
                   issue_severity = advice, issue_message = Some path_advice\<rparr>"
      unfolding v by (rule check_path_issue)
    then show "issue_field issue = fields_path \<and> issue_kind issue = deprecated \<and>
            issue_severity issue = advice \<and> issue_message issue = message v"
      unfolding k by simp
  qed
  let ?u = "\<lparr>record_data = [''path'' \<mapsto> ''suite.txt'', ''role'' \<mapsto> ''unit-source'']\<rparr>"
  have "fires (check parent dk ds v ?u fields_path)"
    unfolding v
    by (simp add: check_path_fires [of ?u "''suite.txt''"] eval_roles splitext_examples)
  then have x: "\<exists>u i. check parent dk ds v u fields_path = Inr (Some i)"
    unfolding fires_iff by blast
  from k(1,2) lit url pxu e i x show ?thesis by blast
qed

theorem path_validator_classification_witness:
  "explain \<lparr>explain_map = [deprecated \<mapsto> ''stock'']\<rparr>
     \<lparr>record_data = [''path'' \<mapsto> ''suite.txt'', ''role'' \<mapsto> ''unit-source'']\<rparr>
     fields_path deprecated (message (path_validator path_advice)) =
   Some ''please use .pxu as an extension for all files with plainbox units, see: http://plainbox.readthedocs.org/en/latest/author/faq.html#faq-1'' \<and>
   explain \<lparr>explain_map = Map.empty\<rparr>
     \<lparr>record_data = [''path'' \<mapsto> ''notes'', ''role'' \<mapsto> ''unit-source'']\<rparr>
     fields_path deprecated (message (path_validator path_advice)) =
   Some ''please use .pxu as an extension for all files with plainbox units, see: http://plainbox.readthedocs.org/en/latest/author/faq.html#faq-1'' \<and>
   kind (path_validator path_advice) = Some deprecated \<and>
   severity (path_validator path_advice) = Some advice \<and>
   check \<lparr>explain_map = Map.empty\<rparr> unknown_symbol error (path_validator path_advice)
     \<lparr>record_data = [''path'' \<mapsto> ''notes'', ''role'' \<mapsto> ''unit-source'']\<rparr> fields_path =
   Inr (Some \<lparr>issue_field = fields_path, issue_kind = deprecated, issue_severity = advice,
     issue_message = Some ''please use .pxu as an extension for all files with plainbox units, see: http://plainbox.readthedocs.org/en/latest/author/faq.html#faq-1''\<rparr>)"
proof -
  have m: "path_validator path_advice \<in> set [path_validator path_advice]" by simp
  note t = path_validator_classification [OF validators_of_path m]
  let ?P = "\<lparr>explain_map = [deprecated \<mapsto> ''stock'']\<rparr>"
  let ?Q = "\<lparr>explain_map = Map.empty\<rparr> :: Problem UnitValidator"
  let ?a = "\<lparr>record_data = [''path'' \<mapsto> ''suite.txt'', ''role'' \<mapsto> ''unit-source'']\<rparr>"
  let ?b = "\<lparr>record_data = [''path'' \<mapsto> ''notes'', ''role'' \<mapsto> ''unit-source'']\<rparr>"
  let ?r = "check ?Q unknown_symbol error (path_validator path_advice) ?b fields_path"
  note lit = t [of ?P ?a, THEN conjunct2, THEN conjunct2, THEN conjunct1]
  note ea = t [of ?P ?a, THEN conjunct2, THEN conjunct2, THEN conjunct2, THEN conjunct2,
      THEN conjunct2, THEN conjunct1]
  note eb = t [of ?Q ?b, THEN conjunct2, THEN conjunct2, THEN conjunct2, THEN conjunct2,
      THEN conjunct2, THEN conjunct1]
  from ea lit have a: "explain ?P ?a fields_path deprecated
      (message (path_validator path_advice)) =
    Some ''please use .pxu as an extension for all files with plainbox units, see: http://plainbox.readthedocs.org/en/latest/author/faq.html#faq-1''"
    by (rule trans)
  from eb lit have b: "explain ?Q ?b fields_path deprecated
      (message (path_validator path_advice)) =
    Some ''please use .pxu as an extension for all files with plainbox units, see: http://plainbox.readthedocs.org/en/latest/author/faq.html#faq-1''"
    by (rule trans)
  note c = t [of ?P ?a, THEN conjunct1] t [of ?P ?a, THEN conjunct2, THEN conjunct1]
  have "snd (splitext ''notes'') \<noteq> ''.pxu''" by code_simp
  then have "fires ?r"
    by (simp add: check_path_fires [of ?b "''notes''"] eval_roles)
  then obtain issue where i: "?r = Inr (Some issue)"
    unfolding fires_iff by blast
  note iss = t [of ?Q ?b unknown_symbol error issue, THEN conjunct2, THEN conjunct2,
      THEN conjunct2, THEN conjunct2, THEN conjunct2, THEN conjunct2, THEN conjunct1]
  from iss i lit have "issue_field issue = fields_path" "issue_kind issue = deprecated"
    "issue_severity issue = advice"
    "issue_message issue = Some ''please use .pxu as an extension for all files with plainbox units, see: http://plainbox.readthedocs.org/en/latest/author/faq.html#faq-1''"
    by simp_all
  then have "issue = \<lparr>issue_field = fields_path, issue_kind = deprecated,
     issue_severity = advice,
     issue_message = Some ''please use .pxu as an extension for all files with plainbox units, see: http://plainbox.readthedocs.org/en/latest/author/faq.html#faq-1''\<rparr>"
    by (cases issue) simp
  with i have d: "?r = Inr (Some \<lparr>issue_field = fields_path, issue_kind = deprecated,
     issue_severity = advice,
     issue_message = Some ''please use .pxu as an extension for all files with plainbox units, see: http://plainbox.readthedocs.org/en/latest/author/faq.html#faq-1''\<rparr>)"
    by simp
  from a b c d show ?thesis by blast
qed

subsection \<open>\<open>__str__\<close> and \<open>__repr__\<close>\<close>

text \<open>
  C8, as stated: for every unit \<open>__repr__\<close> contains the value of the path and the value
  of the role verbatim. \<open>__repr__\<close> formats both with \<open>{!r}\<close>, and \<open>repr\<close> of a string
  escapes the backslash. For the path of three characters, the letter a, a backslash and
  the letter b, the representation has the letter a, two backslashes and the letter b
  between the quotes, and the path does not occur in it.
\<close>

theorem FileUnit_str_and_repr_counterexample:
  "path \<lparr>record_data = [''path'' \<mapsto> [CHR ''a'', CHR 0x5C, CHR ''b''], ''role'' \<mapsto> ''script'']\<rparr> =
     Some [CHR ''a'', CHR 0x5C, CHR ''b''] \<and>
   FileUnit_repr
     \<lparr>record_data = [''path'' \<mapsto> [CHR ''a'', CHR 0x5C, CHR ''b''], ''role'' \<mapsto> ''script'']\<rparr> =
     Inr (''<FileUnit path:'' @ [CHR 0x27, CHR ''a'', CHR 0x5C, CHR 0x5C, CHR ''b'', CHR 0x27] @
          '', role:'' @ [CHR 0x27] @ ''script'' @ [CHR 0x27] @ ''>'') \<and>
   \<not> sublist [CHR ''a'', CHR 0x5C, CHR ''b'']
       (''<FileUnit path:'' @ [CHR 0x27, CHR ''a'', CHR 0x5C, CHR 0x5C, CHR ''b'', CHR 0x27] @
        '', role:'' @ [CHR 0x27] @ ''script'' @ [CHR 0x27] @ ''>'')"
proof -
  let ?u = "\<lparr>record_data = [''path'' \<mapsto> [CHR ''a'', CHR 0x5C, CHR ''b''], ''role'' \<mapsto> ''script'']\<rparr>"
  have a: "path ?u = Some [CHR ''a'', CHR 0x5C, CHR ''b'']"
    by (simp add: eval_roles)
  have b: "FileUnit_repr ?u =
     Inr (''<FileUnit path:'' @ [CHR 0x27, CHR ''a'', CHR 0x5C, CHR 0x5C, CHR ''b'', CHR 0x27] @
          '', role:'' @ [CHR 0x27] @ ''script'' @ [CHR 0x27] @ ''>'')"
    by code_simp
  have c: "\<not> sublist [CHR ''a'', CHR 0x5C, CHR ''b'']
       (''<FileUnit path:'' @ [CHR 0x27, CHR ''a'', CHR 0x5C, CHR 0x5C, CHR ''b'', CHR 0x27] @
        '', role:'' @ [CHR 0x27] @ ''script'' @ [CHR 0x27] @ ''>'')"
    by code_simp
  from a b c show ?thesis by blast
qed

text \<open>
  C8, amended: \<open>__str__\<close> returns the value of the path field as it is, so \<open>str\<close> of a
  unit whose path is a string is that string, and \<open>str\<close> of a unit with no path raises
  \<open>TypeError\<close>. \<open>__repr__\<close> is \<open><FileUnit path:\<close>, \<open>repr\<close> of the path, \<open>, role:\<close>, \<open>repr\<close>
  of the role and \<open>>\<close>, so it contains \<open>repr\<close> of both values. \<open>repr\<close> shows a string
  unchanged between its quotes exactly when the string has only printable characters,
  no backslash and not both kinds of quote; for such a path, and likewise for such a
  role, \<open>__repr__\<close> contains the value verbatim.
\<close>

theorem FileUnit_str_and_repr:
  "FileUnit_str u = path u \<and>
   (path u = Some p \<longrightarrow> str_FileUnit u = Inr p) \<and>
   (path u = None \<longrightarrow> str_FileUnit u = Inl TypeError) \<and>
   (\<exists>r. FileUnit_repr u = Inr r \<and>
        r = ''<FileUnit path:'' @ py_repr (path u) @ '', role:'' @ py_repr (role u) @ ''>'' \<and>
        sublist (py_repr (path u)) r \<and> sublist (py_repr (role u)) r \<and>
        (path u = Some p \<and> (\<forall>c\<in>set p. py_isprintable c \<and> c \<noteq> CHR 0x5C) \<and>
           (CHR 0x27 \<notin> set p \<or> CHR 0x22 \<notin> set p) \<longrightarrow> sublist p r) \<and>
        (role u = Some q \<and> (\<forall>c\<in>set q. py_isprintable c \<and> c \<noteq> CHR 0x5C) \<and>
           (CHR 0x27 \<notin> set q \<or> CHR 0x22 \<notin> set q) \<longrightarrow> sublist q r)) \<and>
   (path u = Some p \<longrightarrow>
      (py_repr (path u) = [repr_quote p] @ p @ [repr_quote p] \<longleftrightarrow>
         (\<forall>c\<in>set p. py_isprintable c \<and> c \<noteq> CHR 0x5C) \<and>
         (CHR 0x27 \<notin> set p \<or> CHR 0x22 \<notin> set p))) \<and>
   (role u = Some q \<longrightarrow>
      (py_repr (role u) = [repr_quote q] @ q @ [repr_quote q] \<longleftrightarrow>
         (\<forall>c\<in>set q. py_isprintable c \<and> c \<noteq> CHR 0x5C) \<and>
         (CHR 0x27 \<notin> set q \<or> CHR 0x22 \<notin> set q)))"
proof -
  let ?r = "''<FileUnit path:'' @ py_repr (path u) @ '', role:'' @ py_repr (role u) @ ''>''"
  have s: "FileUnit_str u = path u"
    by (simp add: FileUnit_str_def)
  have s1: "path u = Some p \<longrightarrow> str_FileUnit u = Inr p"
    by (simp add: str_FileUnit_def FileUnit_str_def)
  have s2: "path u = None \<longrightarrow> str_FileUnit u = Inl TypeError"
    by (simp add: str_FileUnit_def FileUnit_str_def)
  have rp: "sublist (py_repr (path u)) ?r"
    unfolding sublist_def by blast
  have "?r = (''<FileUnit path:'' @ py_repr (path u) @ '', role:'') @ py_repr (role u) @ ''>''"
    by simp
  then have rr: "sublist (py_repr (role u)) ?r"
    unfolding sublist_def by blast
  have vp: "sublist p ?r"
    if "path u = Some p" "\<forall>c\<in>set p. py_isprintable c \<and> c \<noteq> CHR 0x5C"
      "CHR 0x27 \<notin> set p \<or> CHR 0x22 \<notin> set p"
  proof -
    have "py_repr (path u) = [repr_quote p] @ p @ [repr_quote p]"
      using that by (simp add: str_repr_plain)
    then have "sublist p (py_repr (path u))"
      unfolding sublist_def by blast
    then show ?thesis using rp by (rule sublist_order.order_trans)
  qed
  have vr: "sublist q ?r"
    if "role u = Some q" "\<forall>c\<in>set q. py_isprintable c \<and> c \<noteq> CHR 0x5C"
      "CHR 0x27 \<notin> set q \<or> CHR 0x22 \<notin> set q"
  proof -
    have "py_repr (role u) = [repr_quote q] @ q @ [repr_quote q]"
      using that by (simp add: str_repr_plain)
    then have "sublist q (py_repr (role u))"
      unfolding sublist_def by blast
    then show ?thesis using rr by (rule sublist_order.order_trans)
  qed
  from FileUnit_repr_eq [of u] rp rr vp vr
  have ex: "\<exists>r. FileUnit_repr u = Inr r \<and> r = ?r \<and>
        sublist (py_repr (path u)) r \<and> sublist (py_repr (role u)) r \<and>
        (path u = Some p \<and> (\<forall>c\<in>set p. py_isprintable c \<and> c \<noteq> CHR 0x5C) \<and>
           (CHR 0x27 \<notin> set p \<or> CHR 0x22 \<notin> set p) \<longrightarrow> sublist p r) \<and>
        (role u = Some q \<and> (\<forall>c\<in>set q. py_isprintable c \<and> c \<noteq> CHR 0x5C) \<and>
           (CHR 0x27 \<notin> set q \<or> CHR 0x22 \<notin> set q) \<longrightarrow> sublist q r)"
    by blast
  have ip: "path u = Some p \<longrightarrow>
      (py_repr (path u) = [repr_quote p] @ p @ [repr_quote p] \<longleftrightarrow>
         (\<forall>c\<in>set p. py_isprintable c \<and> c \<noteq> CHR 0x5C) \<and>
         (CHR 0x27 \<notin> set p \<or> CHR 0x22 \<notin> set p))"
    using str_repr_plain_iff [of p] by simp
  have ir: "role u = Some q \<longrightarrow>
      (py_repr (role u) = [repr_quote q] @ q @ [repr_quote q] \<longleftrightarrow>
         (\<forall>c\<in>set q. py_isprintable c \<and> c \<noteq> CHR 0x5C) \<and>
         (CHR 0x27 \<notin> set q \<or> CHR 0x22 \<notin> set q))"
    using str_repr_plain_iff [of q] by simp
  from s s1 s2 ex ip ir show ?thesis by blast
qed

theorem FileUnit_str_and_repr_witness:
  "str_FileUnit \<lparr>record_data = [''path'' \<mapsto> ''suite.pxu'', ''role'' \<mapsto> ''unit-source'']\<rparr> =
     Inr ''suite.pxu'' \<and>
   str_FileUnit \<lparr>record_data = [''role'' \<mapsto> ''unit-source'']\<rparr> = Inl TypeError \<and>
   FileUnit_repr \<lparr>record_data = [''path'' \<mapsto> ''suite.pxu'', ''role'' \<mapsto> ''unit-source'']\<rparr> =
     Inr (''<FileUnit path:'' @ [CHR 0x27] @ ''suite.pxu'' @ [CHR 0x27] @
          '', role:'' @ [CHR 0x27] @ ''unit-source'' @ [CHR 0x27] @ ''>'') \<and>
   sublist ''suite.pxu'' (projr (FileUnit_repr
     \<lparr>record_data = [''path'' \<mapsto> ''suite.pxu'', ''role'' \<mapsto> ''unit-source'']\<rparr>)) \<and>
   sublist ''unit-source'' (projr (FileUnit_repr
     \<lparr>record_data = [''path'' \<mapsto> ''suite.pxu'', ''role'' \<mapsto> ''unit-source'']\<rparr>)) \<and>
   py_repr (path \<lparr>record_data = [''path'' \<mapsto> [CHR ''a'', CHR 0x5C, CHR ''b''], ''role'' \<mapsto> ''script'']\<rparr>) \<noteq>
     [CHR 0x27] @ [CHR ''a'', CHR 0x5C, CHR ''b''] @ [CHR 0x27]"
proof -
  let ?u = "\<lparr>record_data = [''path'' \<mapsto> ''suite.pxu'', ''role'' \<mapsto> ''unit-source'']\<rparr>"
  let ?n = "\<lparr>record_data = [''role'' \<mapsto> ''unit-source'']\<rparr>"
  let ?w = "\<lparr>record_data = [''path'' \<mapsto> [CHR ''a'', CHR 0x5C, CHR ''b''], ''role'' \<mapsto> ''script'']\<rparr>"
  have pu: "path ?u = Some ''suite.pxu''" and ru: "role ?u = Some ''unit-source''"
    by (simp_all add: eval_roles)
  have pn: "path ?n = None"
    by (simp add: path_def get_record_value_def)
  have pw: "path ?w = Some [CHR ''a'', CHR 0x5C, CHR ''b'']"
    by (simp add: eval_roles)
  have pp: "\<forall>c\<in>set ''suite.pxu''. py_isprintable c \<and> c \<noteq> CHR 0x5C"
    by (simp add: py_isprintable_def)
  have pr: "\<forall>c\<in>set ''unit-source''. py_isprintable c \<and> c \<noteq> CHR 0x5C"
    by (simp add: py_isprintable_def)
  note t = FileUnit_str_and_repr [of ?u "''suite.pxu''" "''unit-source''"]
  note n = FileUnit_str_and_repr [of ?n "''x''" "''y''"]
  note w = FileUnit_str_and_repr [of ?w "[CHR ''a'', CHR 0x5C, CHR ''b'']" "''script''"]
  from t pu have a: "str_FileUnit ?u = Inr ''suite.pxu''" by blast
  from n pn have b: "str_FileUnit ?n = Inl TypeError" by blast
  from t obtain r where r: "FileUnit_repr ?u = Inr r"
    "r = ''<FileUnit path:'' @ py_repr (path ?u) @ '', role:'' @ py_repr (role ?u) @ ''>''"
    "path ?u = Some ''suite.pxu'' \<and> (\<forall>c\<in>set ''suite.pxu''. py_isprintable c \<and> c \<noteq> CHR 0x5C) \<and>
       (CHR 0x27 \<notin> set ''suite.pxu'' \<or> CHR 0x22 \<notin> set ''suite.pxu'') \<longrightarrow> sublist ''suite.pxu'' r"
    "role ?u = Some ''unit-source'' \<and> (\<forall>c\<in>set ''unit-source''. py_isprintable c \<and> c \<noteq> CHR 0x5C) \<and>
       (CHR 0x27 \<notin> set ''unit-source'' \<or> CHR 0x22 \<notin> set ''unit-source'') \<longrightarrow> sublist ''unit-source'' r"
    by blast
  have c: "FileUnit_repr ?u =
     Inr (''<FileUnit path:'' @ [CHR 0x27] @ ''suite.pxu'' @ [CHR 0x27] @
          '', role:'' @ [CHR 0x27] @ ''unit-source'' @ [CHR 0x27] @ ''>'')"
    unfolding r(1) r(2) pu ru by code_simp
  from r(3) pu pp have d: "sublist ''suite.pxu'' (projr (FileUnit_repr ?u))"
    unfolding r(1) by simp
  from r(4) ru pr have e: "sublist ''unit-source'' (projr (FileUnit_repr ?u))"
    unfolding r(1) by simp
  have q: "repr_quote [CHR ''a'', CHR 0x5C, CHR ''b''] = CHR 0x27"
    by (simp add: repr_quote_def)
  from w pw have "py_repr (path ?w) =
      [repr_quote [CHR ''a'', CHR 0x5C, CHR ''b'']] @ [CHR ''a'', CHR 0x5C, CHR ''b''] @
      [repr_quote [CHR ''a'', CHR 0x5C, CHR ''b'']] \<longleftrightarrow>
         (\<forall>c\<in>set [CHR ''a'', CHR 0x5C, CHR ''b'']. py_isprintable c \<and> c \<noteq> CHR 0x5C) \<and>
         (CHR 0x27 \<notin> set [CHR ''a'', CHR 0x5C, CHR ''b''] \<or>
          CHR 0x22 \<notin> set [CHR ''a'', CHR 0x5C, CHR ''b''])"
    by blast
  then have f: "py_repr (path ?w) \<noteq> [CHR 0x27] @ [CHR ''a'', CHR 0x5C, CHR ''b''] @ [CHR 0x27]"
    unfolding q by simp
  from a b c d e f show ?thesis by blast
qed

subsection \<open>The predicate of the path validator and the last suffix\<close>

text \<open>
  C10. The predicate of the validator registered on \<open>path\<close> accepts a path exactly when
  the extension \<open>os.path.splitext\<close> gives is \<open>.pxu\<close>. The extension is a suffix of the
  path, and it is \<open>.pxu\<close> exactly when the path ends in \<open>.pxu\<close> and what stands between the
  last slash and that suffix has a character other than a dot. For a unit whose role is
  \<open>unit-source\<close> the validator fires exactly when the predicate rejects the path. So
  with that role \<open>suite.pxu.in\<close> is a violation (its extension is \<open>.in\<close>),
  \<open>suite.txt.pxu\<close> is none, and \<open>suite\<close>, which has the empty extension, is a violation.
  A file named \<open>.pxu\<close> alone has the empty extension as well.
\<close>

theorem extension_predicate_last_suffix:
  assumes "validators_of fields_path = Inr vs" and "v \<in> set vs"
  shows "correct_fn v (Some p) = Inr (snd (splitext p) = ''.pxu'') \<and>
         fst (splitext p) @ snd (splitext p) = p \<and>
         (snd (splitext p) = ''.pxu'' \<longleftrightarrow>
            (\<exists>dir name. p = dir @ name @ ''.pxu'' \<and> (dir = [] \<or> last dir = CHR ''/'') \<and>
                         CHR ''/'' \<notin> set name \<and> (\<exists>c\<in>set name. c \<noteq> CHR ''.''))) \<and>
         snd (splitext ''suite.pxu.in'') = ''.in'' \<and>
         correct_fn v (Some ''suite.pxu.in'') = Inr False \<and>
         snd (splitext ''suite.txt.pxu'') = ''.pxu'' \<and>
         correct_fn v (Some ''suite.txt.pxu'') = Inr True \<and>
         snd (splitext ''suite'') = [] \<and>
         correct_fn v (Some ''suite'') = Inr False \<and>
         (role unit = Some ''unit-source'' \<and> path unit = Some p \<longrightarrow>
            (fires (check parent dk ds v unit fields_path) \<longleftrightarrow>
               snd (splitext p) \<noteq> ''.pxu'')) \<and>
         fires (check parent dk ds v
           \<lparr>record_data = [''path'' \<mapsto> ''suite.pxu.in'', ''role'' \<mapsto> ''unit-source'']\<rparr>
           fields_path) \<and>
         \<not> fires (check parent dk ds v
           \<lparr>record_data = [''path'' \<mapsto> ''suite.txt.pxu'', ''role'' \<mapsto> ''unit-source'']\<rparr>
           fields_path) \<and>
         fires (check parent dk ds v
           \<lparr>record_data = [''path'' \<mapsto> ''suite'', ''role'' \<mapsto> ''unit-source'']\<rparr>
           fields_path)"
proof -
  from assms have v: "v = path_validator path_advice"
    by (rule the_path_validator)
  have c: "correct_fn v (Some x) = Inr (snd (splitext x) = ''.pxu'')" for x
    unfolding v by (simp add: path_validator_def)
  have a: "correct_fn v (Some ''suite.pxu.in'') = Inr False"
    unfolding c by (simp add: splitext_examples)
  have b: "correct_fn v (Some ''suite.txt.pxu'') = Inr True"
    unfolding c by (simp add: splitext_examples)
  have d: "correct_fn v (Some ''suite'') = Inr False"
    unfolding c by (simp add: splitext_examples)
  have g: "role unit = Some ''unit-source'' \<and> path unit = Some p \<longrightarrow>
            (fires (check parent dk ds v unit fields_path) \<longleftrightarrow>
               snd (splitext p) \<noteq> ''.pxu'')"
    unfolding v using check_path_fires [of unit p] by blast
  let ?a = "\<lparr>record_data = [''path'' \<mapsto> ''suite.pxu.in'', ''role'' \<mapsto> ''unit-source'']\<rparr>"
  let ?b = "\<lparr>record_data = [''path'' \<mapsto> ''suite.txt.pxu'', ''role'' \<mapsto> ''unit-source'']\<rparr>"
  let ?d = "\<lparr>record_data = [''path'' \<mapsto> ''suite'', ''role'' \<mapsto> ''unit-source'']\<rparr>"
  have fa: "fires (check parent dk ds v ?a fields_path)"
    unfolding v
    by (simp add: check_path_fires [of ?a "''suite.pxu.in''"] eval_roles splitext_examples)
  have fb: "\<not> fires (check parent dk ds v ?b fields_path)"
    unfolding v
    by (simp add: check_path_fires [of ?b "''suite.txt.pxu''"] eval_roles splitext_examples)
  have fd: "fires (check parent dk ds v ?d fields_path)"
    unfolding v
    by (simp add: check_path_fires [of ?d "''suite''"] eval_roles splitext_examples)
  from c [of p] splitext_append [of p] splitext_pxu_iff [of p] splitext_examples(4,5,6) a b d
    g fa fb fd
  show ?thesis by blast
qed

theorem extension_predicate_last_suffix_witness:
  "correct_fn (path_validator path_advice) (Some ''units/suite.txt.pxu'') = Inr True \<and>
   correct_fn (path_validator path_advice) (Some ''units/.pxu'') = Inr False \<and>
   correct_fn (path_validator path_advice) (Some ''units.pxu/suite'') = Inr False \<and>
   correct_fn (path_validator path_advice) (Some ''suite.pxu.in'') = Inr False \<and>
   fires (check \<lparr>explain_map = Map.empty\<rparr> unknown_symbol error (path_validator path_advice)
     \<lparr>record_data = [''path'' \<mapsto> ''units/.pxu'', ''role'' \<mapsto> ''unit-source'']\<rparr> fields_path) \<and>
   \<not> fires (check \<lparr>explain_map = Map.empty\<rparr> unknown_symbol error (path_validator path_advice)
     \<lparr>record_data = [''path'' \<mapsto> ''units/suite.txt.pxu'', ''role'' \<mapsto> ''unit-source'']\<rparr>
     fields_path) \<and>
   fires (check \<lparr>explain_map = Map.empty\<rparr> unknown_symbol error (path_validator path_advice)
     \<lparr>record_data = [''path'' \<mapsto> ''suite.pxu.in'', ''role'' \<mapsto> ''unit-source'']\<rparr> fields_path)"
proof -
  have m: "path_validator path_advice \<in> set [path_validator path_advice]" by simp
  note t = extension_predicate_last_suffix [OF validators_of_path m]
  let ?P = "\<lparr>explain_map = Map.empty\<rparr> :: Problem UnitValidator"
  let ?x = "\<lparr>record_data = [''path'' \<mapsto> ''units/.pxu'', ''role'' \<mapsto> ''unit-source'']\<rparr>"
  let ?y = "\<lparr>record_data = [''path'' \<mapsto> ''units/suite.txt.pxu'', ''role'' \<mapsto> ''unit-source'']\<rparr>"
  have a: "snd (splitext ''units/suite.txt.pxu'') = ''.pxu''"
    and b: "snd (splitext ''units/.pxu'') \<noteq> ''.pxu''"
    and c: "snd (splitext ''units.pxu/suite'') \<noteq> ''.pxu''"
    by code_simp+
  from t [of "''units/suite.txt.pxu''"] a
  have 1: "correct_fn (path_validator path_advice) (Some ''units/suite.txt.pxu'') = Inr True"
    by simp
  from t [of "''units/.pxu''"] b
  have 2: "correct_fn (path_validator path_advice) (Some ''units/.pxu'') = Inr False"
    by simp
  from t [of "''units.pxu/suite''"] c
  have 3: "correct_fn (path_validator path_advice) (Some ''units.pxu/suite'') = Inr False"
    by simp
  from t [of "''x''"]
  have 4: "correct_fn (path_validator path_advice) (Some ''suite.pxu.in'') = Inr False"
    by blast
  have "role ?x = Some ''unit-source'' \<and> path ?x = Some ''units/.pxu''"
    by (simp add: eval_roles)
  with t [of "''units/.pxu''" ?x ?P unknown_symbol error] b
  have 5: "fires (check ?P unknown_symbol error (path_validator path_advice) ?x fields_path)"
    by blast
  have "role ?y = Some ''unit-source'' \<and> path ?y = Some ''units/suite.txt.pxu''"
    by (simp add: eval_roles)
  with t [of "''units/suite.txt.pxu''" ?y ?P unknown_symbol error] a
  have 6: "\<not> fires (check ?P unknown_symbol error (path_validator path_advice) ?y fields_path)"
    by blast
  from t [of "''x''" ?x ?P unknown_symbol error]
  have 7: "fires (check ?P unknown_symbol error (path_validator path_advice)
     \<lparr>record_data = [''path'' \<mapsto> ''suite.pxu.in'', ''role'' \<mapsto> ''unit-source'']\<rparr> fields_path)"
    by blast
  from 1 2 3 4 5 6 7 show ?thesis by blast
qed

end
